theory Spec2Isabelle
  imports Main "HOL-Library.Multiset"
begin

section \<open>Values\<close>

text \<open>
  An ObjectId is represented by its canonical rendering, the 24 lower-case hexadecimal
  digits that \<open>toString()\<close> returns; \<open>toString()\<close> on an id is therefore
  the identity and two ids are equal exactly when their renderings are. A \<open>Date\<close>
  is the number of milliseconds since the epoch.
\<close>

type_synonym oid = string
type_synonym date = int

definition is_hex :: "char \<Rightarrow> bool" where
  "is_hex c = (c \<in> set ''0123456789abcdefABCDEF'')"

text \<open>
  \<open>mongoose.Types.ObjectId.isValid\<close> on a route parameter: the 24 digit hexadecimal
  form, in either case, as in bson 6. (Earlier versions of bson also take any string of
  12 characters for an id; that form is not modelled.)
\<close>

definition ObjectId_isValid :: "string \<Rightarrow> bool" where
  "ObjectId_isValid s = (length s = 24 \<and> list_all is_hex s)"

definition lower_hex :: "char \<Rightarrow> char" where
  "lower_hex c =
     (if c = CHR ''A'' then CHR ''a'' else if c = CHR ''B'' then CHR ''b''
      else if c = CHR ''C'' then CHR ''c'' else if c = CHR ''D'' then CHR ''d''
      else if c = CHR ''E'' then CHR ''e'' else if c = CHR ''F'' then CHR ''f'' else c)"

text \<open>The cast of a valid route parameter to the id it denotes.\<close>

definition ObjectId_cast :: "string \<Rightarrow> oid" where
  "ObjectId_cast s = map lower_hex s"

text \<open>
  JavaScript truthiness of an optional string (\<open>None\<close> is \<open>undefined\<close>): the empty
  string is falsy. For an optional number, zero is falsy.
\<close>

fun truthy :: "string option \<Rightarrow> bool" where
  "truthy None = False"
| "truthy (Some s) = (s \<noteq> [])"

fun truthy_num :: "int option \<Rightarrow> bool" where
  "truthy_num None = False"
| "truthy_num (Some n) = (n \<noteq> 0)"

section \<open>Documents\<close>

text \<open>The User model (models/User.ts).\<close>

record user =
  user_id :: oid
  name :: string
  email :: string
  password :: string
  role :: string
  isActive :: bool

text \<open>
  What \<open>populate(path, 'name email')\<close> puts in place of an id: the referenced user
  document restricted to \<open>_id\<close>, \<open>name\<close> and \<open>email\<close>.
\<close>

record user_ref =
  ref_id :: oid
  ref_name :: string
  ref_email :: string

text \<open>
  The Task model (models/Task.ts). The two reference paths are type parameters: a stored
  task holds ids; a populated task holds user documents in \<open>assignedTo\<close> and a user
  document or \<open>null\<close> in \<open>assignedBy\<close>. String paths are optional because a document
  in memory may lack them before validation. The optional \<open>projectId\<close> of the later
  version of the schema is never read or set by the handlers below and is left out.
\<close>

record ('a, 'b) task =
  task_id :: oid
  title :: "string option"
  description :: "string option"
  status :: "string option"
  priority :: "string option"
  assignedTo :: "'a list"
  assignedBy :: 'b
  dueDate :: "date option"
  createdAt :: date
  updatedAt :: date

type_synonym stored_task = "(oid, oid) task"
type_synonym populated_task = "(user_ref, user_ref option) task"

text \<open>
  \<open>toString()\<close> of a populated document is Mongoose's \<open>Document.prototype.toString\<close>,
  the \<open>util.inspect\<close> rendering of the document, not the rendering of its \<open>_id\<close>. The
  exact layout does not matter below, only that the text is not 24 hexadecimal digits:
  it opens with a brace.
\<close>

definition Document_toString :: "user_ref \<Rightarrow> string" where
  "Document_toString d =
     ''{ _id: new ObjectId('' @ ref_id d @ ''), name: '' @ ref_name d
       @ '', email: '' @ ref_email d @ '' }''"

section \<open>Server state\<close>

text \<open>
  A Socket.IO emission \<open>io.to(room).emit(event, data)\<close>. Every connection joins the room
  named by its user's id (socket/index.ts), so an emission reaches user \<open>u\<close> exactly when
  its room is \<open>u\<close>'s id.
\<close>

datatype event_data =
  TaskData populated_task
| TaskDeleted string
| TaskDeletedMsg string string

datatype emission = Emit string string event_data

fun room_of :: "emission \<Rightarrow> string" where
  "room_of (Emit r e d) = r"

fun event_of :: "emission \<Rightarrow> string" where
  "event_of (Emit r e d) = e"

text \<open>
  The two collections in insertion order, and the emissions made so far, oldest first.
\<close>

record state =
  users :: "user list"
  tasks :: "stored_task list"
  emitted :: "emission list"

text \<open>
  What the driver, the clock and bcrypt supply to a request: a new ObjectId, the time and
  the salted hash.
\<close>

record env =
  newId :: oid
  now :: date
  bcrypt :: "string \<Rightarrow> string"

text \<open>
  The signed token is represented by what was signed: \<open>jwt.sign({id, role}, secret,
  {expiresIn})\<close>.
\<close>

record token =
  tok_id :: oid
  tok_role :: string
  tok_expiresIn :: string

record user_info =
  info_id :: oid
  info_name :: string
  info_email :: string
  info_role :: string

text \<open>
  Response bodies. The controller's \<open>success\<close> flag and \<open>count\<close> repeat the
  status class and the length of the list and are left out.
\<close>

datatype payload =
  Message string
| OneTask populated_task
| OneTaskMsg populated_task string
| ManyTasks "populated_task list"
| Registered token user_info

type_synonym response = "nat \<times> payload"

section \<open>Model operations\<close>

definition findById :: "stored_task list \<Rightarrow> oid \<Rightarrow> stored_task option" where
  "findById ts i = find (\<lambda>t. task_id t = i) ts"

definition populate_user :: "user list \<Rightarrow> oid \<Rightarrow> user_ref option" where
  "populate_user us i =
     (case find (\<lambda>u. user_id u = i) us of
        None \<Rightarrow> None
      | Some u \<Rightarrow> Some \<lparr>ref_id = user_id u, ref_name = name u, ref_email = email u\<rparr>)"

text \<open>
  \<open>populate('assignedTo', 'name email')\<close> then \<open>populate('assignedBy', 'name email')\<close>:
  ids of \<open>assignedTo\<close> with no user are dropped from the array, an \<open>assignedBy\<close> with
  no user becomes \<open>null\<close>.
\<close>

definition populate :: "user list \<Rightarrow> stored_task \<Rightarrow> populated_task" where
  "populate us t =
     \<lparr>task_id = task_id t, title = title t, description = description t,
      status = status t, priority = priority t,
      assignedTo = List.map_filter (populate_user us) (assignedTo t),
      assignedBy = populate_user us (assignedBy t),
      dueDate = dueDate t, createdAt = createdAt t, updatedAt = updatedAt t\<rparr>"

section \<open>routes/tasks.ts\<close>

subsection \<open>GET /:id\<close>

text \<open>
  The handler after \<open>protect\<close>. The task is loaded populated, so the creator test
  \<open>task.assignedBy.toString() === user._id.toString()\<close> renders a user document
  (or throws on \<open>null\<close>, which the handler's \<open>catch\<close> turns into 500).
\<close>

definition tasks_get_one :: "state \<Rightarrow> user option \<Rightarrow> string \<Rightarrow> response \<times> state" where
  "tasks_get_one st req_user taskId =
     (if \<not> ObjectId_isValid taskId then ((400, Message ''Invalid task ID format''), st)
      else case findById (tasks st) (ObjectId_cast taskId) of
        None \<Rightarrow> ((404, Message ''Task not found''), st)
      | Some t \<Rightarrow>
          let task = populate (users st) t in
          (case req_user of
             None \<Rightarrow> ((401, Message ''User not authenticated''), st)
           | Some user \<Rightarrow>
               if role user = ''admin'' then ((200, OneTask task), st)
               else if user_id user \<in> set (map ref_id (assignedTo task))
               then ((200, OneTask task), st)
               else (case assignedBy task of
                       None \<Rightarrow> ((500, Message ''Server error''), st)
                     | Some creator \<Rightarrow>
                         if Document_toString creator = user_id user
                         then ((200, OneTask task), st)
                         else ((403, Message ''Access denied''), st))))"

subsection \<open>GET /\<close>

text \<open>\<open>sort({createdAt: -1})\<close>: newest first.\<close>

definition sort_createdAt_desc :: "stored_task list \<Rightarrow> stored_task list" where
  "sort_createdAt_desc ts = sort_key (\<lambda>t. - createdAt t) ts"

definition tasks_get_all :: "state \<Rightarrow> user option \<Rightarrow> response \<times> state" where
  "tasks_get_all st req_user =
     (case req_user of
        None \<Rightarrow> ((401, Message ''User not authenticated''), st)
      | Some user \<Rightarrow>
          let found =
                (if role user = ''admin'' then tasks st
                 else filter (\<lambda>t. user_id user \<in> set (assignedTo t)) (tasks st))
          in ((200, ManyTasks (map (populate (users st)) (sort_createdAt_desc found))), st))"

subsection \<open>The request body of POST and PUT\<close>

text \<open>
  The six fields the handlers read, each absent (\<open>None\<close>) or present with a value of its
  schema type, and the names of any other keys the body has. A body whose \<open>assignedTo\<close>
  is not an array of ids, or whose strings are \<open>null\<close>, is outside this type.
\<close>

record task_body =
  b_title :: "string option"
  b_description :: "string option"
  b_status :: "string option"
  b_priority :: "string option"
  b_assignedTo :: "oid list option"
  b_dueDate :: "date option"
  b_other :: "string list"

fun key_if :: "'a option \<Rightarrow> string \<Rightarrow> string list" where
  "key_if None k = []"
| "key_if (Some v) k = [k]"

definition Object_keys :: "task_body \<Rightarrow> string list" where
  "Object_keys b =
     key_if (b_title b) ''title'' @ key_if (b_description b) ''description''
     @ key_if (b_status b) ''status'' @ key_if (b_priority b) ''priority''
     @ key_if (b_assignedTo b) ''assignedTo'' @ key_if (b_dueDate b) ''dueDate''
     @ b_other b"

text \<open>\<open>x || d\<close> on an optional string.\<close>

fun or_else :: "string option \<Rightarrow> string \<Rightarrow> string" where
  "or_else None d = d"
| "or_else (Some s) d = (if s = [] then d else s)"

subsection \<open>Saving a task\<close>

text \<open>
  The schema's validators: \<open>title\<close> and \<open>description\<close> are required (a required string
  must be non-empty), \<open>status\<close> and \<open>priority\<close> are checked against their \<open>enum\<close>
  when they are set.
\<close>

fun enum_ok :: "string list \<Rightarrow> string option \<Rightarrow> bool" where
  "enum_ok vs None = True"
| "enum_ok vs (Some s) = (s \<in> set vs)"

definition Task_validate :: "stored_task \<Rightarrow> bool" where
  "Task_validate t =
     (truthy (title t) \<and> truthy (description t)
      \<and> enum_ok [''todo'', ''in-progress'', ''review'', ''done''] (status t)
      \<and> enum_ok [''low'', ''medium'', ''high''] (priority t))"

text \<open>
  \<open>new Task({...})\<close>: the schema defaults fill \<open>status\<close> and \<open>priority\<close> when the
  constructor is given \<open>undefined\<close>. The id is assigned here and the two timestamps
  (\<open>timestamps: true\<close>) are the time of the save that follows.
\<close>

definition new_Task ::
  "env \<Rightarrow> string option \<Rightarrow> string option \<Rightarrow> string option \<Rightarrow> string option
     \<Rightarrow> oid list \<Rightarrow> oid \<Rightarrow> date option \<Rightarrow> stored_task" where
  "new_Task e ti de pr sta ids creator due =
     \<lparr>task_id = newId e, title = ti, description = de,
      status = (case sta of None \<Rightarrow> Some ''todo'' | Some s \<Rightarrow> Some s),
      priority = (case pr of None \<Rightarrow> Some ''medium'' | Some p \<Rightarrow> Some p),
      assignedTo = ids, assignedBy = creator, dueDate = due,
      createdAt = now e, updatedAt = now e\<rparr>"

text \<open>
  \<open>save()\<close> of a new document: \<open>None\<close> when it throws (validation, or the unique
  \<open>_id\<close> index), else the collection with the document added.
\<close>

definition Task_insert :: "stored_task list \<Rightarrow> stored_task \<Rightarrow> stored_task list option" where
  "Task_insert ts t =
     (if \<not> Task_validate t then None
      else if findById ts (task_id t) \<noteq> None then None
      else Some (ts @ [t]))"

text \<open>
  \<open>save()\<close> of a loaded document: \<open>None\<close> when it throws (validation, or the document
  is gone), else the collection with the document replaced.
\<close>

definition Task_update :: "stored_task list \<Rightarrow> stored_task \<Rightarrow> stored_task list option" where
  "Task_update ts t =
     (if \<not> Task_validate t then None
      else if findById ts (task_id t) = None then None
      else Some (map (\<lambda>x. if task_id x = task_id t then t else x) ts))"

text \<open>
  The \<open>timestamps\<close> hook of a save of a loaded document: \<open>updatedAt\<close> becomes the
  time of the save when some path has changed since the document was loaded.
\<close>

definition touch :: "env \<Rightarrow> stored_task \<Rightarrow> stored_task \<Rightarrow> stored_task" where
  "touch e loaded t = (if t = loaded then t else t\<lparr>updatedAt := now e\<rparr>)"

text \<open>\<open>findByIdAndDelete\<close>: the first document with the id is removed.\<close>

fun Task_delete :: "stored_task list \<Rightarrow> oid \<Rightarrow> stored_task list" where
  "Task_delete [] i = []"
| "Task_delete (t # ts) i = (if task_id t = i then ts else t # Task_delete ts i)"

subsection \<open>POST /\<close>

text \<open>
  The handler after \<open>protect\<close> and \<open>authorize('admin')\<close>.
  \<open>User.find({_id: {$in: assignedTo}})\<close> selects the users whose id occurs in the list.
\<close>

definition tasks_post :: "env \<Rightarrow> state \<Rightarrow> user option \<Rightarrow> task_body \<Rightarrow> response \<times> state" where
  "tasks_post e st req_user b =
     (case req_user of
        None \<Rightarrow> ((401, Message ''User not authenticated''), st)
      | Some user \<Rightarrow>
          (case b_assignedTo b of
             None \<Rightarrow>
               ((400, Message ''AssignedTo is required and must be an array of user IDs''), st)
           | Some ids \<Rightarrow>
               if ids = []
               then ((400, Message ''AssignedTo is required and must be an array of user IDs''), st)
               else
                 let validUsers = filter (\<lambda>u. user_id u \<in> set ids) (users st) in
                 if length validUsers \<noteq> length ids
                 then ((400, Message ''One or more assigned users do not exist''), st)
                 else
                   let task = new_Task e (b_title b) (b_description b) (b_priority b)
                                (Some (or_else (b_status b) ''todo'')) ids (user_id user)
                                (b_dueDate b)
                   in (case Task_insert (tasks st) task of
                         None \<Rightarrow> ((500, Message ''Server error''), st)
                       | Some ts \<Rightarrow>
                           let populated = populate (users st) task;
                               assigned = map (\<lambda>d. Emit (ref_id d) ''taskAssigned'' (TaskData populated))
                                            (assignedTo populated);
                               created = [Emit (user_id user) ''taskCreated'' (TaskData populated)]
                           in ((201, OneTask populated),
                               st\<lparr>tasks := ts, emitted := emitted st @ assigned @ created\<rparr>))))"

subsection \<open>PUT /:id\<close>

text \<open>
  The permission block of the handler (the spec's \<open>canWrite\<close>): \<open>False\<close> is the 403
  'Access denied'. The task is loaded unpopulated here, so both comparisons are between
  ids.
\<close>

definition canWrite :: "user \<Rightarrow> stored_task \<Rightarrow> task_body \<Rightarrow> bool" where
  "canWrite user task b =
     (if role user \<noteq> ''admin'' \<and> assignedBy task \<noteq> user_id user
      then (if truthy (b_status b) \<and> length (Object_keys b) = 1
            then user_id user \<in> set (assignedTo task)
            else False)
      else True)"

text \<open>The assignments \<open>if (x !== undefined) task.x = x\<close> for the five scalar fields.\<close>

definition assign_fields :: "task_body \<Rightarrow> stored_task \<Rightarrow> stored_task" where
  "assign_fields b t =
     t\<lparr>title := (case b_title b of None \<Rightarrow> title t | Some v \<Rightarrow> Some v),
       description := (case b_description b of None \<Rightarrow> description t | Some v \<Rightarrow> Some v),
       status := (case b_status b of None \<Rightarrow> status t | Some v \<Rightarrow> Some v),
       priority := (case b_priority b of None \<Rightarrow> priority t | Some v \<Rightarrow> Some v),
       dueDate := (case b_dueDate b of None \<Rightarrow> dueDate t | Some v \<Rightarrow> Some v)\<rparr>"

text \<open>
  The emissions after a saved update: \<open>taskUpdated\<close> to every id of the original
  \<open>assignedTo\<close>, then \<open>taskAssigned\<close> to every populated assignee whose id is not among
  the original ones.
\<close>

definition notify_assignees :: "oid list \<Rightarrow> populated_task \<Rightarrow> emission list" where
  "notify_assignees original populated =
     map (\<lambda>i. Emit i ''taskUpdated'' (TaskData populated)) original
     @ map (\<lambda>d. Emit (ref_id d) ''taskAssigned'' (TaskData populated))
         (filter (\<lambda>d. ref_id d \<notin> set original) (assignedTo populated))"

definition tasks_put ::
  "env \<Rightarrow> state \<Rightarrow> user option \<Rightarrow> string \<Rightarrow> task_body \<Rightarrow> response \<times> state" where
  "tasks_put e st req_user ident b =
     (if ident = [] \<or> ident = ''undefined'' \<or> ident = ''null''
      then ((400, Message ''Task ID is required and must be valid''), st)
      else if \<not> ObjectId_isValid ident then ((400, Message ''Invalid task ID format''), st)
      else case req_user of
        None \<Rightarrow> ((401, Message ''User not authenticated''), st)
      | Some user \<Rightarrow>
          (case findById (tasks st) (ObjectId_cast ident) of
             None \<Rightarrow> ((404, Message ''Task not found''), st)
           | Some task \<Rightarrow>
               if \<not> canWrite user task b then ((403, Message ''Access denied''), st)
               else
                 let originalAssignedTo = assignedTo task;
                     task1 = assign_fields b task
                 in (case (case b_assignedTo b of
                             None \<Rightarrow> Some task1
                           | Some ids \<Rightarrow>
                               if length (filter (\<lambda>u. user_id u \<in> set ids) (users st)) \<noteq> length ids
                               then None
                               else Some (task1\<lparr>assignedTo := ids\<rparr>)) of
                       None \<Rightarrow> ((400, Message ''One or more assigned users do not exist''), st)
                     | Some task2 \<Rightarrow>
                         let task3 = touch e task task2 in
                         (case Task_update (tasks st) task3 of
                            None \<Rightarrow> ((500, Message ''Server error''), st)
                          | Some ts \<Rightarrow>
                              let populated = populate (users st) task3 in
                              ((200, OneTask populated),
                               st\<lparr>tasks := ts,
                                  emitted := emitted st
                                    @ notify_assignees originalAssignedTo populated
                                    @ [Emit (user_id user) ''taskUpdated'' (TaskData populated)]\<rparr>)))))"

subsection \<open>DELETE /:id\<close>

text \<open>
  The handler itself. It does not test the id's format: \<open>Task.findById\<close> throws on a
  malformed one, which the \<open>catch\<close> turns into 500.
\<close>

definition tasks_delete :: "state \<Rightarrow> user option \<Rightarrow> string \<Rightarrow> response \<times> state" where
  "tasks_delete st req_user ident =
     (case req_user of
        None \<Rightarrow> ((401, Message ''User not authenticated''), st)
      | Some user \<Rightarrow>
          if \<not> ObjectId_isValid ident then ((500, Message ''Server error''), st)
          else
            (case findById (tasks st) (ObjectId_cast ident) of
               None \<Rightarrow> ((404, Message ''Task not found''), st)
             | Some task \<Rightarrow>
                 ((200, Message ''Task deleted successfully''),
                  st\<lparr>tasks := Task_delete (tasks st) (ObjectId_cast ident),
                     emitted := emitted st
                       @ map (\<lambda>i. Emit i ''taskDeleted'' (TaskDeleted ident)) (assignedTo task)
                       @ [Emit (user_id user) ''taskDeleted'' (TaskDeleted ident)]\<rparr>)))"

text \<open>
  The route \<open>router.delete('/:id', protect, authorize('admin'), handler)\<close>. The source of
  \<open>middleware/authorize\<close> is not among the files, so the middleware is a parameter:
  given the roles it was built with and the authenticated user, it either answers the
  request itself (\<open>Some\<close> response) or calls the handler (\<open>None\<close>).
\<close>

definition tasks_delete_route ::
  "(string list \<Rightarrow> user \<Rightarrow> response option)
     \<Rightarrow> state \<Rightarrow> user option \<Rightarrow> string \<Rightarrow> response \<times> state" where
  "tasks_delete_route authorize st req_user ident =
     (case req_user of
        None \<Rightarrow> ((401, Message ''Not authorized, no token''), st)
      | Some user \<Rightarrow>
          (case authorize [''admin''] user of
             Some refusal \<Rightarrow> (refusal, st)
           | None \<Rightarrow> tasks_delete st (Some user) ident))"

section \<open>controllers/taskController.ts\<close>

subsection \<open>getTasks\<close>

definition getTasks :: "state \<Rightarrow> user option \<Rightarrow> response \<times> state" where
  "getTasks st req_user =
     (case req_user of
        None \<Rightarrow> ((401, Message ''User not authenticated''), st)
      | Some user \<Rightarrow>
          let found =
                (if role user = ''admin'' then tasks st
                 else filter (\<lambda>t. user_id user \<in> set (assignedTo t) \<or> assignedBy t = user_id user)
                        (tasks st))
          in ((200, ManyTasks (map (populate (users st)) (sort_createdAt_desc found))), st))"

subsection \<open>getTask\<close>

text \<open>
  As GET /:id of the router, with the two tests joined by \<open>||\<close>: the creator test is
  evaluated only when the requester is not among the assignees.
\<close>

definition getTask :: "state \<Rightarrow> user option \<Rightarrow> string \<Rightarrow> response \<times> state" where
  "getTask st req_user taskId =
     (if \<not> ObjectId_isValid taskId then ((400, Message ''Invalid task ID format''), st)
      else case findById (tasks st) (ObjectId_cast taskId) of
        None \<Rightarrow> ((404, Message ''Task not found''), st)
      | Some t \<Rightarrow>
          let task = populate (users st) t in
          (case req_user of
             None \<Rightarrow> ((401, Message ''User not authenticated''), st)
           | Some user \<Rightarrow>
               if role user = ''admin'' then ((200, OneTask task), st)
               else if user_id user \<in> set (map ref_id (assignedTo task))
               then ((200, OneTask task), st)
               else (case assignedBy task of
                       None \<Rightarrow> ((500, Message ''Server error''), st)
                     | Some creator \<Rightarrow>
                         if Document_toString creator = user_id user
                         then ((200, OneTask task), st)
                         else ((403, Message ''Access denied''), st))))"

subsection \<open>createTask\<close>

text \<open>
  \<open>User.find({_id: {$in: assignedTo}, isActive: true})\<close> selects the active users whose id
  occurs in the list. \<open>dueDate ? new Date(dueDate) : undefined\<close> drops a falsy date.
\<close>

definition createTask :: "env \<Rightarrow> state \<Rightarrow> user option \<Rightarrow> task_body \<Rightarrow> response \<times> state" where
  "createTask e st req_user b =
     (case req_user of
        None \<Rightarrow> ((401, Message ''User not authenticated''), st)
      | Some user \<Rightarrow>
          if \<not> (truthy (b_title b) \<and> truthy (b_description b))
          then ((400, Message ''Title and description are required''), st)
          else
            (case b_assignedTo b of
               None \<Rightarrow>
                 ((400, Message ''AssignedTo is required and must be an array of user IDs''), st)
             | Some ids \<Rightarrow>
                 if ids = []
                 then ((400, Message ''AssignedTo is required and must be an array of user IDs''), st)
                 else
                   let validUsers = filter (\<lambda>u. user_id u \<in> set ids \<and> isActive u) (users st) in
                   if length validUsers \<noteq> length ids
                   then ((400, Message ''One or more assigned users do not exist or are inactive''), st)
                   else
                     let task = new_Task e (b_title b) (b_description b)
                                  (Some (or_else (b_priority b) ''medium''))
                                  (Some (or_else (b_status b) ''todo'')) ids (user_id user)
                                  (if truthy_num (b_dueDate b) then b_dueDate b else None)
                     in (case Task_insert (tasks st) task of
                           None \<Rightarrow> ((500, Message ''Server error''), st)
                         | Some ts \<Rightarrow>
                             let populated = populate (users st) task;
                                 assigned = map (\<lambda>d. Emit (ref_id d) ''taskAssigned'' (TaskData populated))
                                              (assignedTo populated);
                                 created = [Emit (user_id user) ''taskCreated'' (TaskData populated)]
                             in ((201, OneTaskMsg populated ''Task created successfully''),
                                 st\<lparr>tasks := ts, emitted := emitted st @ assigned @ created\<rparr>))))"

subsection \<open>updateTask\<close>

text \<open>\<open>String.prototype.trim\<close>, on ASCII white space.\<close>

definition is_space :: "char \<Rightarrow> bool" where
  "is_space c = (c \<in> set [CHR '' '', CHR 0x09, CHR 0x0A, CHR 0x0B, CHR 0x0C, CHR 0x0D])"

definition trim :: "string \<Rightarrow> string" where
  "trim s = rev (dropWhile is_space (rev (dropWhile is_space s)))"

definition assign_fields_trimmed :: "task_body \<Rightarrow> stored_task \<Rightarrow> stored_task" where
  "assign_fields_trimmed b t =
     t\<lparr>title := (case b_title b of None \<Rightarrow> title t | Some v \<Rightarrow> Some (trim v)),
       description := (case b_description b of None \<Rightarrow> description t | Some v \<Rightarrow> Some (trim v)),
       status := (case b_status b of None \<Rightarrow> status t | Some v \<Rightarrow> Some v),
       priority := (case b_priority b of None \<Rightarrow> priority t | Some v \<Rightarrow> Some v),
       dueDate := (case b_dueDate b of None \<Rightarrow> dueDate t | Some v \<Rightarrow> Some v)\<rparr>"

text \<open>
  The method \<open>task.canBeModifiedBy(userId, role)\<close> is not defined in the files, so it is
  a parameter. After the save the task is populated; \<open>task.assignedBy.toString()\<close> in
  'Notify task creator and admin' therefore renders the creator's user document, and
  throws when the creator no longer exists: the request then answers 500 although the
  task was saved and the assignees were notified.
\<close>

definition updateTask ::
  "(stored_task \<Rightarrow> oid \<Rightarrow> string \<Rightarrow> bool)
     \<Rightarrow> env \<Rightarrow> state \<Rightarrow> user option \<Rightarrow> string \<Rightarrow> task_body \<Rightarrow> response \<times> state" where
  "updateTask canBeModifiedBy e st req_user ident b =
     (case req_user of
        None \<Rightarrow> ((401, Message ''User not authenticated''), st)
      | Some user \<Rightarrow>
          if ident = [] \<or> ident = ''undefined'' \<or> ident = ''null''
          then ((400, Message ''Task ID is required and must be valid''), st)
          else if \<not> ObjectId_isValid ident then ((400, Message ''Invalid task ID format''), st)
          else
            (case findById (tasks st) (ObjectId_cast ident) of
               None \<Rightarrow> ((404, Message ''Task not found''), st)
             | Some task \<Rightarrow>
                 if \<not> canBeModifiedBy task (user_id user) (role user)
                 then ((403, Message ''Access denied''), st)
                 else
                   let originalAssignedTo = assignedTo task;
                       task1 = assign_fields_trimmed b task
                   in (case (case b_assignedTo b of
                               None \<Rightarrow> Some task1
                             | Some ids \<Rightarrow>
                                 if length (filter (\<lambda>u. user_id u \<in> set ids \<and> isActive u) (users st))
                                      \<noteq> length ids
                                 then None
                                 else Some (task1\<lparr>assignedTo := ids\<rparr>)) of
                         None \<Rightarrow>
                           ((400, Message ''One or more assigned users do not exist or are inactive''), st)
                       | Some task2 \<Rightarrow>
                           let task3 = touch e task task2 in
                           (case Task_update (tasks st) task3 of
                              None \<Rightarrow> ((500, Message ''Server error''), st)
                            | Some ts \<Rightarrow>
                                let populated = populate (users st) task3;
                                    first = notify_assignees originalAssignedTo populated
                                in (case assignedBy populated of
                                      None \<Rightarrow>
                                        ((500, Message ''Server error''),
                                         st\<lparr>tasks := ts, emitted := emitted st @ first\<rparr>)
                                    | Some creator \<Rightarrow>
                                        ((200, OneTaskMsg populated ''Task updated successfully''),
                                         st\<lparr>tasks := ts,
                                            emitted := emitted st @ first
                                              @ [Emit (Document_toString creator) ''taskUpdated''
                                                   (TaskData populated)]
                                              @ (if role user = ''admin''
                                                 then [Emit (user_id user) ''taskUpdated''
                                                         (TaskData populated)]
                                                 else [])\<rparr>))))))"

subsection \<open>deleteTask\<close>

text \<open>
  The task is loaded unpopulated, so the creator test and the creator's room are ids.
\<close>

definition deleteTask :: "state \<Rightarrow> user option \<Rightarrow> string \<Rightarrow> response \<times> state" where
  "deleteTask st req_user ident =
     (case req_user of
        None \<Rightarrow> ((401, Message ''User not authenticated''), st)
      | Some user \<Rightarrow>
          if \<not> ObjectId_isValid ident then ((500, Message ''Server error''), st)
          else
            (case findById (tasks st) (ObjectId_cast ident) of
               None \<Rightarrow> ((404, Message ''Task not found''), st)
             | Some task \<Rightarrow>
                 if role user \<noteq> ''admin'' \<and> assignedBy task \<noteq> user_id user
                 then ((403, Message ''Access denied''), st)
                 else
                   ((200, Message ''Task deleted successfully''),
                    st\<lparr>tasks := Task_delete (tasks st) (ObjectId_cast ident),
                       emitted := emitted st
                         @ map (\<lambda>i. Emit i ''taskDeleted''
                                      (TaskDeletedMsg ident ''Task has been deleted''))
                             (assignedTo task)
                         @ [Emit (assignedBy task) ''taskDeleted''
                              (TaskDeletedMsg ident ''Task has been deleted'')]
                         @ (if role user = ''admin''
                            then [Emit (user_id user) ''taskDeleted''
                                    (TaskDeletedMsg ident ''Task has been deleted'')]
                            else [])\<rparr>)))"

section \<open>Registration (routes/auth.ts and the route in server.ts)\<close>






section \<open>Sample data\<close>

text \<open>
  One administrator, four ordinary users of whom Dan is inactive, and Kim, an ordinary
  user who is recorded as the creator of the task \<open>ship\<close> without being assigned to it.
\<close>

definition ada :: user where
  "ada = \<lparr>user_id = ''64b000000000000000000001'', name = ''Ada'', email = ''ada@example.com'',
           password = ''h1'', role = ''admin'', isActive = True\<rparr>"

definition ann :: user where
  "ann = \<lparr>user_id = ''64b00000000000000000000a'', name = ''Ann'', email = ''ann@example.com'',
           password = ''h2'', role = ''user'', isActive = True\<rparr>"

definition bob :: user where
  "bob = \<lparr>user_id = ''64b00000000000000000000b'', name = ''Bob'', email = ''bob@example.com'',
           password = ''h3'', role = ''user'', isActive = True\<rparr>"

definition cy :: user where
  "cy = \<lparr>user_id = ''64b00000000000000000000c'', name = ''Cy'', email = ''cy@example.com'',
          password = ''h4'', role = ''user'', isActive = True\<rparr>"

definition dan :: user where
  "dan = \<lparr>user_id = ''64b00000000000000000000d'', name = ''Dan'', email = ''dan@example.com'',
           password = ''h5'', role = ''user'', isActive = False\<rparr>"

definition kim :: user where
  "kim = \<lparr>user_id = ''64b00000000000000000000e'', name = ''Kim'', email = ''kim@example.com'',
           password = ''h6'', role = ''user'', isActive = True\<rparr>"

definition ship :: stored_task where
  "ship = \<lparr>task_id = ''64c000000000000000000001'', title = Some ''Ship'',
            description = Some ''v1'', status = Some ''todo'', priority = Some ''medium'',
            assignedTo = [user_id ann, user_id bob], assignedBy = user_id kim,
            dueDate = None, createdAt = 1000, updatedAt = 1000\<rparr>"

definition office :: state where
  "office = \<lparr>users = [ada, ann, bob, cy, dan, kim], tasks = [ship], emitted = []\<rparr>"

definition monday :: env where
  "monday = \<lparr>newId = ''64c000000000000000000002'', now = 2000,
              bcrypt = (\<lambda>p. ''$2b$12$'' @ p)\<rparr>"

text \<open>Request bodies used below.\<close>

definition mark_done :: task_body where
  "mark_done = \<lparr>b_title = None, b_description = None, b_status = Some ''done'',
                 b_priority = None, b_assignedTo = None, b_dueDate = None, b_other = []\<rparr>"

definition mark_done_urgent :: task_body where
  "mark_done_urgent = \<lparr>b_title = None, b_description = None, b_status = Some ''done'',
                 b_priority = Some ''high'', b_assignedTo = None, b_dueDate = None, b_other = []\<rparr>"

definition blank_status :: task_body where
  "blank_status = \<lparr>b_title = None, b_description = None, b_status = Some '''',
                 b_priority = None, b_assignedTo = None, b_dueDate = None, b_other = []\<rparr>"

definition rename_and_reassign :: task_body where
  "rename_and_reassign =
     \<lparr>b_title = Some ''Ship it'', b_description = None, b_status = Some ''done'',
      b_priority = None, b_assignedTo = Some [user_id bob, ''64b0000000000000000000ff''],
      b_dueDate = None, b_other = []\<rparr>"




text \<open>
  A second task, created by the administrator, with which Kim has nothing to do; a
  reassignment of \<open>ship\<close> from Ann and Bob to Bob and Cy; and a task for the inactive
  Dan.
\<close>

definition audit :: stored_task where
  "audit = \<lparr>task_id = ''64c000000000000000000003'', title = Some ''Audit'',
             description = Some ''books'', status = Some ''review'', priority = Some ''high'',
             assignedTo = [user_id ann], assignedBy = user_id ada,
             dueDate = Some 5000, createdAt = 1500, updatedAt = 1500\<rparr>"

definition office2 :: state where
  "office2 = office\<lparr>tasks := [ship, audit]\<rparr>"

definition reassign :: task_body where
  "reassign = \<lparr>b_title = None, b_description = None, b_status = None, b_priority = None,
                b_assignedTo = Some [user_id bob, user_id cy], b_dueDate = None, b_other = []\<rparr>"

definition for_dan :: task_body where
  "for_dan = \<lparr>b_title = Some ''Onboard'', b_description = Some ''first week'',
               b_status = None, b_priority = None, b_assignedTo = Some [user_id dan],
               b_dueDate = None, b_other = []\<rparr>"

section \<open>Properties\<close>

subsection \<open>Populated references\<close>

lemma Document_toString_not_id: "ObjectId_isValid i \<Longrightarrow> Document_toString d \<noteq> i"
  by (auto simp: Document_toString_def ObjectId_isValid_def is_hex_def)

lemma populate_user_id: "populate_user us i = Some d \<Longrightarrow> ref_id d = i"
  by (auto simp: populate_user_def find_Some_iff split: option.splits)

lemma populated_ids_subset:
  "set (map ref_id (List.map_filter (populate_user us) ids)) \<subseteq> set ids"
  by (induction ids) (auto simp: populate_user_id split: option.splits)

lemma assignedTo_populate:
  "assignedTo (populate us t) = List.map_filter (populate_user us) (assignedTo t)"
  by (simp add: populate_def)

lemma populate_user_found:
  assumes "\<exists>u\<in>set us. user_id u = i"
  shows "\<exists>d. populate_user us i = Some d"
proof (cases "find (\<lambda>u. user_id u = i) us")
  case None
  then show ?thesis using assms by (simp add: find_None_iff)
next
  case (Some u)
  then show ?thesis by (simp add: populate_user_def)
qed

text \<open>When every id has a user, populating keeps the ids and their order.\<close>

lemma populate_all_ids:
  "\<forall>i\<in>set ids. \<exists>u\<in>set us. user_id u = i
     \<Longrightarrow> map ref_id (List.map_filter (populate_user us) ids) = ids"
proof (induction ids)
  case Nil
  then show ?case by simp
next
  case (Cons i ids)
  obtain d where d: "populate_user us i = Some d"
    using populate_user_found [of us i] Cons.prems by auto
  have "map ref_id (List.map_filter (populate_user us) ids) = ids"
    using Cons by simp
  with d show ?case
    by (simp add: populate_user_id)
qed

subsection \<open>Selecting users by id\<close>

text \<open>
  In a collection with unique ids, the users selected by \<open>$in\<close> are as many as the
  listed ids exactly when the ids are distinct and each has a (selected) user.
\<close>

lemma selected_users_card:
  assumes "distinct (map user_id us)"
  shows "length (filter (\<lambda>u. user_id u \<in> set ids \<and> P u) us)
         = card (set ids \<inter> {i. \<exists>u\<in>set us. user_id u = i \<and> P u})"
proof -
  let ?S = "filter (\<lambda>u. user_id u \<in> set ids \<and> P u) us"
  have "distinct (map user_id ?S)"
    using assms by (rule distinct_map_filter)
  then have "card (set (map user_id ?S)) = length (map user_id ?S)"
    by (rule distinct_card)
  then have "length ?S = card (set (map user_id ?S))"
    by simp
  moreover have "set (map user_id ?S) = set ids \<inter> {i. \<exists>u\<in>set us. user_id u = i \<and> P u}"
    by (simp add: set_eq_iff image_iff) blast
  ultimately show ?thesis by simp
qed

lemma selected_users_all:
  assumes "distinct (map user_id us)"
    and "length (filter (\<lambda>u. user_id u \<in> set ids \<and> P u) us) = length ids"
  shows "\<forall>i\<in>set ids. \<exists>u\<in>set us. user_id u = i \<and> P u"
proof -
  let ?X = "{i. \<exists>u\<in>set us. user_id u = i \<and> P u}"
  have "card (set ids \<inter> ?X) = length ids"
    using selected_users_card [OF assms(1), of ids P] assms(2) by simp
  moreover have "card (set ids \<inter> ?X) \<le> card (set ids)"
    by (rule card_mono) simp_all
  moreover have "card (set ids) \<le> length ids"
    by (rule card_length)
  ultimately have "card (set ids \<inter> ?X) = card (set ids)"
    by simp
  then have "set ids \<inter> ?X = set ids"
    by (intro card_subset_eq) simp_all
  then have "set ids \<subseteq> ?X"
    by blast
  then show ?thesis by blast
qed

lemma found_users_all:
  assumes "distinct (map user_id us)"
    and "length (filter (\<lambda>u. user_id u \<in> set ids) us) = length ids"
  shows "\<forall>i\<in>set ids. \<exists>u\<in>set us. user_id u = i"
  using selected_users_all [OF assms(1), of ids "\<lambda>u. True"] assms(2) by simp

subsection \<open>The task collection\<close>



lemma touch_simps [simp]:
  "task_id (touch e l t) = task_id t" "assignedTo (touch e l t) = assignedTo t"
  "assignedBy (touch e l t) = assignedBy t" "status (touch e l t) = status t"
  "Task_validate (touch e l t) = Task_validate t"
  by (simp_all add: touch_def Task_validate_def)

lemma valid_ident_not_blank:
  "ObjectId_isValid ident \<Longrightarrow> ident \<noteq> [] \<and> ident \<noteq> ''undefined'' \<and> ident \<noteq> ''null''"
  by (auto simp: ObjectId_isValid_def)

subsection \<open>Reading one task\<close>

lemma populated_ids:
  "set (map ref_id (List.map_filter (populate_user us) ids)) = set ids \<inter> user_id ` set us"
proof (induction ids)
  case Nil
  then show ?case by simp
next
  case (Cons i ids)
  show ?case
  proof (cases "populate_user us i")
    case None
    then have "i \<notin> user_id ` set us"
      using populate_user_found [of us i] by auto
    with None Cons show ?thesis by auto
  next
    case (Some d)
    then have "ref_id d = i" by (rule populate_user_id)
    moreover have "i \<in> user_id ` set us"
      using Some by (auto simp: populate_user_def find_Some_iff split: option.splits)
    ultimately show ?thesis using Some Cons by auto
  qed
qed

text \<open>An administrator, and an assignee, are given the task.\<close>

lemma tasks_get_one_granted:
  assumes "ObjectId_isValid ident" and "findById (tasks st) (ObjectId_cast ident) = Some t"
    and "role u = ''admin'' \<or> (user_id u \<in> set (assignedTo t) \<and> u \<in> set (users st))"
  shows "tasks_get_one st (Some u) ident = ((200, OneTask (populate (users st) t)), st)"
proof -
  have "role u = ''admin'' \<or> user_id u \<in> set (map ref_id (assignedTo (populate (users st) t)))"
    using assms(3) populated_ids [of "users st" "assignedTo t"]
    by (auto simp: assignedTo_populate)
  then show ?thesis
    using assms(1,2) by (auto simp: tasks_get_one_def Let_def)
qed


text \<open>
  A requester who is neither an administrator nor among the assignees never receives the
  task from GET /:id, creator or not: the creator test compares the rendering of a user
  document with an id.
\<close>

lemma tasks_get_one_creator_refused:
  assumes "ObjectId_isValid ident" and "findById (tasks st) (ObjectId_cast ident) = Some t"
    and "ObjectId_isValid (user_id u)" and "role u \<noteq> ''admin''"
    and "user_id u \<notin> set (assignedTo t)"
  shows "fst (fst (tasks_get_one st (Some u) ident)) \<noteq> 200"
proof -
  have "user_id u \<notin> set (map ref_id (assignedTo (populate (users st) t)))"
    using assms(5) populated_ids_subset [of "users st" "assignedTo t"]
    by (auto simp: assignedTo_populate)
  then show ?thesis
    using assms(1-4) Document_toString_not_id [OF assms(3)]
    by (auto simp: tasks_get_one_def Let_def split: option.splits)
qed

text \<open>
  C4: get(U, T.id) returns T exactly when U is an administrator, or is among T's assignees,
  or is T's creator, and answers 403 otherwise. The code departs from this for a creator:
  Kim, an ordinary user who created \<open>ship\<close> and is not assigned to it, is answered
  403 'Access denied' by the router's GET /:id and by the controller's getTask.
\<close>

theorem C4_creator_is_refused:
  "role kim \<noteq> ''admin'' \<and> assignedBy ship = user_id kim
   \<and> findById (tasks office) (task_id ship) = Some ship
   \<and> tasks_get_one office (Some kim) (task_id ship) = ((403, Message ''Access denied''), office)
   \<and> getTask office (Some kim) (task_id ship) = ((403, Message ''Access denied''), office)"
  by code_simp




subsection \<open>Listing tasks\<close>

lemma sort_createdAt_desc_sorted:
  "sorted_wrt (\<lambda>a b. createdAt a \<ge> createdAt b) (sort_createdAt_desc ts)"
proof -
  have "sorted (map (\<lambda>t. - createdAt t) (sort_createdAt_desc ts))"
    unfolding sort_createdAt_desc_def by (rule sorted_sort_key)
  then show ?thesis
    by (simp add: sorted_map)
qed

lemma sort_createdAt_desc_mset: "mset (sort_createdAt_desc ts) = mset ts"
  by (simp add: sort_createdAt_desc_def)

text \<open>
  The controller's getTasks does what C5 says: every task for an administrator, the
  tasks assigned to or created by the requester otherwise, newest first.
\<close>

lemma getTasks_visible_newest_first:
  fixes st :: state and u :: user
  defines "visible \<equiv>
      (if role u = ''admin'' then tasks st
       else filter (\<lambda>t. user_id u \<in> set (assignedTo t) \<or> assignedBy t = user_id u) (tasks st))"
  shows "getTasks st (Some u)
           = ((200, ManyTasks (map (populate (users st)) (sort_createdAt_desc visible))), st)"
    and "mset (sort_createdAt_desc visible) = mset visible"
    and "sorted_wrt (\<lambda>a b. createdAt a \<ge> createdAt b) (sort_createdAt_desc visible)"
  by (simp_all add: getTasks_def visible_def sort_createdAt_desc_mset sort_createdAt_desc_sorted)

text \<open>The router's GET / leaves out the tasks the requester only created.\<close>

lemma tasks_get_all_visible_newest_first:
  fixes st :: state and u :: user
  defines "visible \<equiv>
      (if role u = ''admin'' then tasks st
       else filter (\<lambda>t. user_id u \<in> set (assignedTo t)) (tasks st))"
  shows "tasks_get_all st (Some u)
           = ((200, ManyTasks (map (populate (users st)) (sort_createdAt_desc visible))), st)"
    and "mset (sort_createdAt_desc visible) = mset visible"
    and "sorted_wrt (\<lambda>a b. createdAt a \<ge> createdAt b) (sort_createdAt_desc visible)"
  by (simp_all add: tasks_get_all_def visible_def sort_createdAt_desc_mset
      sort_createdAt_desc_sorted)

text \<open>
  C5: listFor(U) returns every task for an administrator and, for any other user, exactly
  the tasks that U is assigned to or created, newest first. The controller's getTasks
  does so (above); the router's GET / does not: Kim, an ordinary user who created
  \<open>ship\<close>, the only task, is given the empty list.
\<close>

theorem C5_router_list_omits_created:
  "role kim \<noteq> ''admin'' \<and> tasks office = [ship] \<and> assignedBy ship = user_id kim
   \<and> tasks_get_all office (Some kim) = ((200, ManyTasks []), office)
   \<and> getTasks office (Some kim) = ((200, ManyTasks [populate (users office) ship]), office)"
  by code_simp

subsection \<open>Updating a task\<close>

lemma canWrite_status_only:
  assumes "user_id u \<in> set (assignedTo t)"
    and "Object_keys b = [''status'']" and "truthy (b_status b)"
  shows "canWrite u t b"
  using assms by (simp add: canWrite_def)

lemma canWrite_two_fields:
  assumes "role u \<noteq> ''admin''" and "assignedBy t \<noteq> user_id u"
    and "Object_keys b = [''status'', ''priority'']"
  shows "\<not> canWrite u t b"
  using assms by (simp add: canWrite_def)

lemma tasks_put_denied:
  assumes "ObjectId_isValid ident" and "findById (tasks st) (ObjectId_cast ident) = Some t"
    and "\<not> canWrite u t b"
  shows "tasks_put e st (Some u) ident b = ((403, Message ''Access denied''), st)"
  using assms valid_ident_not_blank [OF assms(1)]
  by (simp add: tasks_put_def)

lemma tasks_put_allowed:
  assumes "ObjectId_isValid ident" and "findById (tasks st) (ObjectId_cast ident) = Some t"
    and "canWrite u t b"
  shows "fst (fst (tasks_put e st (Some u) ident b)) \<noteq> 403"
  using assms valid_ident_not_blank [OF assms(1)]
  unfolding tasks_put_def Let_def
  by (simp split: option.splits)

lemma findById_replace:
  "findById ts i = Some t \<Longrightarrow> task_id t' = i
     \<Longrightarrow> findById (map (\<lambda>x. if task_id x = i then t' else x) ts) i = Some t'"
  by (induction ts) (auto simp: findById_def split: if_splits)

text \<open>
  The spec's scenario: an assignee who sends only a status of the enum, for a stored task
  that is valid, is answered 200 and the stored status is the new one.
\<close>

lemma tasks_put_status_by_assignee:
  assumes "ObjectId_isValid ident" and "findById (tasks st) (ObjectId_cast ident) = Some t"
    and "user_id u \<in> set (assignedTo t)" and "Task_validate t"
    and "b = \<lparr>b_title = None, b_description = None, b_status = Some s, b_priority = None,
              b_assignedTo = None, b_dueDate = None, b_other = []\<rparr>"
    and "s \<in> set [''todo'', ''in-progress'', ''review'', ''done'']"
  shows "fst (fst (tasks_put e st (Some u) ident b)) = 200
         \<and> (\<exists>t'. findById (tasks (snd (tasks_put e st (Some u) ident b))) (ObjectId_cast ident)
                    = Some t'
                \<and> status t' = Some s \<and> t'\<lparr>updatedAt := updatedAt t\<rparr> = t\<lparr>status := Some s\<rparr>)"
proof -
  define t3 where "t3 = touch e t (t\<lparr>status := Some s\<rparr>)"
  have tid: "task_id t = ObjectId_cast ident"
    using assms(2) by (auto simp: findById_def find_Some_iff)
  have ne: "s \<noteq> []" using assms(6) by auto
  have w: "canWrite u t b"
    using assms(3,5) ne by (simp add: canWrite_def Object_keys_def)
  have a: "assign_fields b t = t\<lparr>status := Some s\<rparr>"
    using assms(5) by (simp add: assign_fields_def)
  have v: "Task_validate t3"
    unfolding t3_def touch_simps using assms(4,6) by (simp add: Task_validate_def)
  have f: "findById (tasks st) (task_id t3) = Some t"
    using assms(2) tid by (simp add: t3_def)
  have up: "Task_update (tasks st) t3
      = Some (map (\<lambda>x. if task_id x = ObjectId_cast ident then t3 else x) (tasks st))"
    using v f tid by (simp add: Task_update_def t3_def)
  have r: "tasks_put e st (Some u) ident b
      = ((200, OneTask (populate (users st) t3)),
         st\<lparr>tasks := map (\<lambda>x. if task_id x = ObjectId_cast ident then t3 else x) (tasks st),
            emitted := emitted st @ notify_assignees (assignedTo t) (populate (users st) t3)
              @ [Emit (user_id u) ''taskUpdated'' (TaskData (populate (users st) t3))]\<rparr>)"
    using assms(1,2) valid_ident_not_blank [OF assms(1)] w a up [unfolded t3_def] assms(5)
    by (simp add: tasks_put_def Let_def t3_def)
  have "findById (map (\<lambda>x. if task_id x = ObjectId_cast ident then t3 else x) (tasks st))
          (ObjectId_cast ident) = Some t3"
    using findById_replace [OF assms(2), of t3] tid by (simp add: t3_def)
  moreover have "status t3 = Some s"
    by (simp add: t3_def)
  moreover have "t3\<lparr>updatedAt := updatedAt t\<rparr> = t\<lparr>status := Some s\<rparr>"
    by (simp add: t3_def touch_def)
  ultimately show ?thesis
    by (simp add: r)
qed

text \<open>
  C1 (as amended): for an ordinary user who is not the task's creator and is among its
  assignees, a PUT whose only key is \<open>status\<close>, with a non-empty value, passes the
  permission block (the answer is not 403), and a PUT whose keys are exactly
  \<open>status\<close> and \<open>priority\<close> is answered 403 'Access denied' and changes nothing.
\<close>

theorem C1_status_only_write:
  assumes "role u \<noteq> ''admin''" and "assignedBy t \<noteq> user_id u"
    and "user_id u \<in> set (assignedTo t)"
    and "ObjectId_isValid ident" and "findById (tasks st) (ObjectId_cast ident) = Some t"
  shows "(Object_keys b = [''status''] \<and> truthy (b_status b) \<longrightarrow>
            canWrite u t b \<and> fst (fst (tasks_put e st (Some u) ident b)) \<noteq> 403)
       \<and> (Object_keys b' = [''status'', ''priority''] \<longrightarrow>
            \<not> canWrite u t b'
            \<and> tasks_put e st (Some u) ident b' = ((403, Message ''Access denied''), st))"
proof (intro conjI impI)
  assume k: "Object_keys b = [''status''] \<and> truthy (b_status b)"
  then show w: "canWrite u t b"
    using canWrite_status_only [OF assms(3)] by simp
  show "fst (fst (tasks_put e st (Some u) ident b)) \<noteq> 403"
    using tasks_put_allowed [OF assms(4,5) w] .
next
  assume k: "Object_keys b' = [''status'', ''priority'']"
  show d: "\<not> canWrite u t b'"
    using canWrite_two_fields [OF assms(1,2) k] .
  show "tasks_put e st (Some u) ident b' = ((403, Message ''Access denied''), st)"
    using tasks_put_denied [OF assms(4,5) d] .
qed

theorem C1_status_only_write_witness:
  "role bob \<noteq> ''admin'' \<and> assignedBy ship \<noteq> user_id bob \<and> user_id bob \<in> set (assignedTo ship)
   \<and> Object_keys mark_done = [''status''] \<and> canWrite bob ship mark_done
   \<and> fst (fst (tasks_put monday office (Some bob) (task_id ship) mark_done)) = 200
   \<and> Object_keys mark_done_urgent = [''status'', ''priority'']
   \<and> \<not> canWrite bob ship mark_done_urgent
   \<and> tasks_put monday office (Some bob) (task_id ship) mark_done_urgent
       = ((403, Message ''Access denied''), office)"
proof -
  have a: "role bob \<noteq> ''admin''" "assignedBy ship \<noteq> user_id bob"
    "user_id bob \<in> set (assignedTo ship)"
    by code_simp+
  have i: "ObjectId_isValid (task_id ship)" by code_simp
  have f: "findById (tasks office) (ObjectId_cast (task_id ship)) = Some ship" by code_simp
  have k: "Object_keys mark_done = [''status''] \<and> truthy (b_status mark_done)" by code_simp
  have k': "Object_keys mark_done_urgent = [''status'', ''priority'']" by code_simp
  have ok: "fst (fst (tasks_put monday office (Some bob) (task_id ship) mark_done)) = 200"
    by code_simp
  show ?thesis
    using C1_status_only_write [OF a i f, of mark_done monday mark_done_urgent] a k k' ok
    by simp
qed

text \<open>
  C1 as stated fails: Bob, an assignee, sends the single field \<open>status\<close> with the
  empty string; \<open>req.body.status\<close> is falsy, so the request is answered 403.
\<close>

theorem C1_blank_status_denied:
  "role bob \<noteq> ''admin'' \<and> assignedBy ship \<noteq> user_id bob \<and> user_id bob \<in> set (assignedTo ship)
   \<and> Object_keys blank_status = [''status'']
   \<and> \<not> canWrite bob ship blank_status
   \<and> tasks_put monday office (Some bob) (task_id ship) blank_status
       = ((403, Message ''Access denied''), office)"
  by code_simp

text \<open>
  An id in \<open>assignedTo\<close> that has no user makes the update fail with 400 once the
  earlier checks have passed, in a collection with unique user ids.
\<close>

lemma tasks_put_unresolved_assignee:
  assumes "distinct (map user_id (users st))"
    and "ObjectId_isValid ident" and "findById (tasks st) (ObjectId_cast ident) = Some t"
    and "canWrite u t b" and "b_assignedTo b = Some ids"
    and "i \<in> set ids" and "i \<notin> user_id ` set (users st)"
  shows "tasks_put e st (Some u) ident b
           = ((400, Message ''One or more assigned users do not exist''), st)"
proof -
  have "length (filter (\<lambda>u. user_id u \<in> set ids) (users st)) \<noteq> length ids"
  proof
    assume "length (filter (\<lambda>u. user_id u \<in> set ids) (users st)) = length ids"
    then have "\<forall>i\<in>set ids. \<exists>u\<in>set (users st). user_id u = i \<and> True"
      using selected_users_all [OF assms(1), of ids "\<lambda>u. True"] by simp
    then show False using assms(6,7) by force
  qed
  then show ?thesis
    using assms(2-5) valid_ident_not_blank [OF assms(2)]
    by (simp add: tasks_put_def Let_def)
qed

text \<open>
  C9: when PUT /:id answers 400 'One or more assigned users do not exist', the state after
  the request is the state before it: no stored task has changed, whatever other fields
  the request carried, and nothing was emitted.
\<close>

theorem C9_failed_assignment_changes_nothing:
  "tasks_put e st req_user ident b
     = ((400, Message ''One or more assigned users do not exist''), st') \<Longrightarrow> st' = st"
  unfolding tasks_put_def Let_def
  by (simp split: if_splits option.splits)

theorem C9_failed_assignment_changes_nothing_witness:
  "tasks_put monday office (Some ada) (task_id ship) rename_and_reassign
     = ((400, Message ''One or more assigned users do not exist''), office)
   \<and> findById (tasks office) (task_id ship) = Some ship \<and> emitted office = []"
proof -
  have "fst (tasks_put monday office (Some ada) (task_id ship) rename_and_reassign)
     = (400, Message ''One or more assigned users do not exist'')"
    by code_simp
  then have r: "tasks_put monday office (Some ada) (task_id ship) rename_and_reassign
     = ((400, Message ''One or more assigned users do not exist''),
        snd (tasks_put monday office (Some ada) (task_id ship) rename_and_reassign))"
    by (simp add: prod_eq_iff)
  have "snd (tasks_put monday office (Some ada) (task_id ship) rename_and_reassign) = office"
    by (rule C9_failed_assignment_changes_nothing [OF r])
  moreover have "findById (tasks office) (task_id ship) = Some ship"
    by code_simp
  moreover have "emitted office = []"
    by (simp add: office_def)
  ultimately show ?thesis using r by simp
qed

text \<open>
  Whom an update notifies among the assignees: \<open>taskUpdated\<close> for each original
  assignee, then \<open>taskAssigned\<close> for each populated assignee that is not an original one.
\<close>

lemma notify_assignees_targets:
  "map (\<lambda>x. (room_of x, event_of x)) (notify_assignees original p)
     = map (\<lambda>i. (i, ''taskUpdated'')) original
       @ map (\<lambda>i. (i, ''taskAssigned''))
           (filter (\<lambda>i. i \<notin> set original) (map ref_id (assignedTo p)))"
  by (simp add: notify_assignees_def filter_map comp_def)

text \<open>
  What a 200 answer of the router's PUT /:id with an \<open>assignedTo\<close> field emitted, in a
  collection with unique user ids: \<open>taskUpdated\<close> to each original assignee,
  \<open>taskAssigned\<close> to each new id that is not an original one, and \<open>taskUpdated\<close> to
  the requester, administrator or not. Nothing is addressed to the creator as such.
\<close>

lemma tasks_put_targets:
  assumes ok: "tasks_put e st (Some u) ident b = ((200, body), st')"
    and t: "findById (tasks st) (ObjectId_cast ident) = Some t"
    and q: "b_assignedTo b = Some ids"
    and wf: "distinct (map user_id (users st))"
  shows "map (\<lambda>x. (room_of x, event_of x)) (drop (length (emitted st)) (emitted st'))
           = map (\<lambda>i. (i, ''taskUpdated'')) (assignedTo t)
             @ map (\<lambda>i. (i, ''taskAssigned'')) (filter (\<lambda>i. i \<notin> set (assignedTo t)) ids)
             @ [(user_id u, ''taskUpdated'')]"
proof -
  define t3 where "t3 = touch e t ((assign_fields b t)\<lparr>assignedTo := ids\<rparr>)"
  have len: "length (filter (\<lambda>u. user_id u \<in> set ids) (users st)) = length ids"
    using ok t q unfolding tasks_put_def Let_def
    by (simp split: if_splits)
  have em: "emitted st' = emitted st @ notify_assignees (assignedTo t) (populate (users st) t3)
              @ [Emit (user_id u) ''taskUpdated'' (TaskData (populate (users st) t3))]"
    using ok t q len unfolding tasks_put_def Let_def t3_def
    by (auto split: if_splits option.splits)
  have "map ref_id (assignedTo (populate (users st) t3)) = ids"
    using populate_all_ids [OF found_users_all [OF wf len]]
    by (simp add: assignedTo_populate t3_def)
  then show ?thesis
    by (simp add: em notify_assignees_targets)
qed

text \<open>
  The same for the controller's updateTask: after the assignees, \<open>taskUpdated\<close> goes to
  the room named by the rendering of the creator's user document, which is no user's
  room, and then to the requester when the requester is an administrator.
\<close>

lemma updateTask_targets:
  assumes ok: "updateTask canBeModifiedBy e st (Some u) ident b = ((200, body), st')"
    and t: "findById (tasks st) (ObjectId_cast ident) = Some t"
    and q: "b_assignedTo b = Some ids"
    and wf: "distinct (map user_id (users st))"
  shows "\<exists>creator. populate_user (users st) (assignedBy t) = Some creator
           \<and> map (\<lambda>x. (room_of x, event_of x)) (drop (length (emitted st)) (emitted st'))
               = map (\<lambda>i. (i, ''taskUpdated'')) (assignedTo t)
                 @ map (\<lambda>i. (i, ''taskAssigned'')) (filter (\<lambda>i. i \<notin> set (assignedTo t)) ids)
                 @ [(Document_toString creator, ''taskUpdated'')]
                 @ (if role u = ''admin'' then [(user_id u, ''taskUpdated'')] else [])"
proof -
  define t3 where "t3 = touch e t ((assign_fields_trimmed b t)\<lparr>assignedTo := ids\<rparr>)"
  have len: "length (filter (\<lambda>u. user_id u \<in> set ids \<and> isActive u) (users st)) = length ids"
    using ok t q unfolding updateTask_def Let_def
    by (simp split: if_splits)
  have by_t3: "assignedBy (populate (users st) t3) = populate_user (users st) (assignedBy t)"
    by (simp add: populate_def t3_def assign_fields_trimmed_def)
  obtain creator where c: "populate_user (users st) (assignedBy t) = Some creator"
    using ok t q len by_t3 unfolding updateTask_def Let_def t3_def
    by (cases "populate_user (users st) (assignedBy t)") (auto split: if_splits option.splits)
  have em: "emitted st' = emitted st @ notify_assignees (assignedTo t) (populate (users st) t3)
              @ [Emit (Document_toString creator) ''taskUpdated'' (TaskData (populate (users st) t3))]
              @ (if role u = ''admin''
                 then [Emit (user_id u) ''taskUpdated'' (TaskData (populate (users st) t3))]
                 else [])"
    using ok t q len by_t3 c unfolding updateTask_def Let_def t3_def
    by (auto split: if_splits option.splits)
  have "\<forall>i\<in>set ids. \<exists>u\<in>set (users st). user_id u = i"
    using selected_users_all [OF wf len] by blast
  then have "map ref_id (assignedTo (populate (users st) t3)) = ids"
    using populate_all_ids [of ids "users st"]
    by (simp add: assignedTo_populate t3_def)
  then show ?thesis
    using c by (simp add: em notify_assignees_targets)
qed

text \<open>
  C3: a successful update that changes assignedTo from P to Q emits taskUpdated to every
  id in P, to the creator and, exactly when the requester is an administrator, to the
  requester, and taskAssigned to every id in Q that is not in P and to no id in P. The
  part about the assignees holds on both paths (above). The part about the creator does
  not: when the administrator Ada moves \<open>ship\<close> from Ann and Bob to Bob and Cy, the
  router emits nothing for the creator Kim, and the controller addresses Kim's
  \<open>taskUpdated\<close> to a room named by the rendering of Kim's user document.
\<close>

theorem C3_creator_not_notified:
  "role ada = ''admin'' \<and> assignedTo ship = [user_id ann, user_id bob]
   \<and> assignedBy ship = user_id kim
   \<and> b_assignedTo reassign = Some [user_id bob, user_id cy]
   \<and> fst (fst (tasks_put monday office (Some ada) (task_id ship) reassign)) = 200
   \<and> map (\<lambda>x. (room_of x, event_of x))
        (emitted (snd (tasks_put monday office (Some ada) (task_id ship) reassign)))
       = [(user_id ann, ''taskUpdated''), (user_id bob, ''taskUpdated''),
          (user_id cy, ''taskAssigned''), (user_id ada, ''taskUpdated'')]
   \<and> fst (fst (updateTask (\<lambda>t i r. True) monday office (Some ada) (task_id ship) reassign)) = 200
   \<and> map (\<lambda>x. (room_of x, event_of x))
        (emitted (snd (updateTask (\<lambda>t i r. True) monday office (Some ada) (task_id ship) reassign)))
       = [(user_id ann, ''taskUpdated''), (user_id bob, ''taskUpdated''),
          (user_id cy, ''taskAssigned''),
          (Document_toString \<lparr>ref_id = user_id kim, ref_name = name kim, ref_email = email kim\<rparr>,
           ''taskUpdated''),
          (user_id ada, ''taskUpdated'')]
   \<and> Document_toString \<lparr>ref_id = user_id kim, ref_name = name kim, ref_email = email kim\<rparr>
       \<noteq> user_id kim"
  by code_simp

subsection \<open>Creating a task\<close>




text \<open>
  The controller's createTask does what C6 says: an assignee id that belongs to an
  inactive user makes the request fail with 400 and leaves the state as it was.
\<close>

lemma createTask_inactive_assignee:
  assumes wf: "distinct (map user_id (users st))"
    and b: "b_assignedTo b = Some ids"
    and d: "d \<in> set (users st)" "user_id d \<in> set ids" "\<not> isActive d"
  shows "fst (fst (createTask e st (Some c) b)) = 400 \<and> snd (createTask e st (Some c) b) = st"
proof -
  have "length (filter (\<lambda>u. user_id u \<in> set ids \<and> isActive u) (users st)) \<noteq> length ids"
  proof
    assume "length (filter (\<lambda>u. user_id u \<in> set ids \<and> isActive u) (users st)) = length ids"
    then have "\<forall>i\<in>set ids. \<exists>u\<in>set (users st). user_id u = i \<and> isActive u"
      by (rule selected_users_all [OF wf])
    then obtain u where u: "u \<in> set (users st)" "user_id u = user_id d" "isActive u"
      using d(2) by blast
    have "inj_on user_id (set (users st))"
      using wf by (simp add: distinct_map)
    then have "u = d" using u(1,2) d(1) by (auto dest: inj_onD)
    with u(3) d(3) show False by simp
  qed
  moreover have "ids \<noteq> []" using d(2) by auto
  ultimately show ?thesis
    using b by (simp add: createTask_def Let_def)
qed

text \<open>
  C6: a create request whose assignedTo holds the id of an existing inactive user fails
  with 400 and stores no task. The controller's createTask does so (above); the router's
  POST / does not look at \<open>isActive\<close>: the administrator's task for the inactive Dan
  is answered 201 and stored.
\<close>

theorem C6_router_accepts_inactive_assignee:
  "dan \<in> set (users office) \<and> \<not> isActive dan \<and> b_assignedTo for_dan = Some [user_id dan]
   \<and> fst (fst (tasks_post monday office (Some ada) for_dan)) = 201
   \<and> map assignedTo (tasks (snd (tasks_post monday office (Some ada) for_dan)))
       = [assignedTo ship, [user_id dan]]
   \<and> createTask monday office (Some ada) for_dan
       = ((400, Message ''One or more assigned users do not exist or are inactive''), office)"
  by code_simp

subsection \<open>Deleting a task\<close>

lemma findById_Task_delete:
  "distinct (map task_id ts) \<Longrightarrow> findById (Task_delete ts i) i = None"
proof (induction ts)
  case Nil
  then show ?case by (simp add: findById_def)
next
  case (Cons t ts)
  show ?case
  proof (cases "task_id t = i")
    case True
    then have "i \<notin> task_id ` set ts" using Cons.prems by auto
    then have "find (\<lambda>x. task_id x = i) ts = None"
      by (force simp: find_None_iff)
    with True show ?thesis by (simp add: findById_def)
  next
    case False
    then show ?thesis using Cons by (simp add: findById_def)
  qed
qed

lemma findById_Task_delete_other:
  "j \<noteq> i \<Longrightarrow> findById (Task_delete ts i) j = findById ts j"
  by (induction ts) (auto simp: findById_def)

text \<open>
  The controller's deleteTask does what C2 says: a creator who is not an administrator
  deletes the task, and the task is gone from a collection with unique ids.
\<close>

lemma deleteTask_by_creator:
  assumes "ObjectId_isValid ident" and "findById (tasks st) (ObjectId_cast ident) = Some t"
    and "assignedBy t = user_id u" and "distinct (map task_id (tasks st))"
  shows "fst (deleteTask st (Some u) ident) = (200, Message ''Task deleted successfully'')
         \<and> findById (tasks (snd (deleteTask st (Some u) ident))) (ObjectId_cast ident) = None"
  using assms findById_Task_delete [OF assms(4), of "ObjectId_cast ident"]
  by (simp add: deleteTask_def)

text \<open>Any other ordinary user is answered 403 and nothing changes.\<close>

lemma deleteTask_by_stranger:
  assumes "ObjectId_isValid ident" and "findById (tasks st) (ObjectId_cast ident) = Some t"
    and "role v \<noteq> ''admin''" and "assignedBy t \<noteq> user_id v"
  shows "deleteTask st (Some v) ident = ((403, Message ''Access denied''), st)"
  using assms by (simp add: deleteTask_def)

text \<open>
  The router's handler has no test of its own: once \<open>authorize\<close> lets a requester
  through, any task is deleted.
\<close>

lemma tasks_delete_by_anyone:
  assumes "ObjectId_isValid ident" and "findById (tasks st) (ObjectId_cast ident) = Some t"
  shows "fst (tasks_delete st (Some v) ident) = (200, Message ''Task deleted successfully'')"
  using assms by (simp add: tasks_delete_def)

text \<open>
  C2: a creator who is not an administrator can delete the task, and any other ordinary
  user is answered 403 and the task stays. The controller's deleteTask does so (above).
  The router's DELETE /:id cannot: its handler never looks at the creator, so whatever
  \<open>authorize(['admin'])\<close> decides from the user alone, Kim is either let through
  for both the task she created and the one she has nothing to do with, or for neither.
\<close>

theorem C2_router_delete_is_not_creator_scoped:
  "role kim \<noteq> ''admin'' \<and> assignedBy ship = user_id kim \<and> assignedBy audit \<noteq> user_id kim
   \<and> (\<forall>authorize.
         \<not> (fst (fst (tasks_delete_route authorize office2 (Some kim) (task_id ship))) = 200
            \<and> fst (fst (tasks_delete_route authorize office2 (Some kim) (task_id audit))) = 403))"
proof -
  have a: "role kim \<noteq> ''admin''" "assignedBy ship = user_id kim" "assignedBy audit \<noteq> user_id kim"
    by code_simp+
  have h: "fst (fst (tasks_delete office2 (Some kim) (task_id audit))) = 200"
    by code_simp
  have "\<not> (fst (fst (tasks_delete_route authorize office2 (Some kim) (task_id ship))) = 200
            \<and> fst (fst (tasks_delete_route authorize office2 (Some kim) (task_id audit))) = 403)"
    for authorize
    using h by (cases "authorize [''admin''] kim") (auto simp: tasks_delete_route_def)
  with a show ?thesis by blast
qed

subsection \<open>Registration\<close>




end
